theory Spec2Isabelle
  imports Main "HOL-Library.Word"
begin

section \<open>GoVector: the vector-clock logger of govec.go\<close>

text \<open>
  The development follows \<^verbatim>\<open>src/govec/govec.go\<close>. The struct \<^verbatim>\<open>GoLog\<close> is a
  record, every method takes the record and returns the updated one, and the external
  world a method touches (the log file, the console, the wall clock, the outcome of a
  system call) is explicit: the file and the console are carried beside the struct's
  fields, the outcomes of system calls are read from a record \<open>extern\<close> handed to
  the call. A call that blocks forever on the mutex has the value \<open>None\<close>.
\<close>

subsection \<open>Priorities\<close>

text \<open>\<^verbatim>\<open>type LogPriority int\<close>: every integer is a priority, five of them are named.\<close>

type_synonym LogPriority = int

definition DEBUG :: LogPriority where "DEBUG = 0"
definition INFO :: LogPriority where "INFO = 1"
definition WARNING :: LogPriority where "WARNING = 2"
definition ERROR :: LogPriority where "ERROR = 3"
definition FATAL :: LogPriority where "FATAL = 4"

definition getPrefixString :: "LogPriority \<Rightarrow> string" where
  "getPrefixString l =
     (if l = DEBUG then ''DEBUG''
      else if l = INFO then ''NORMAL''
      else if l = WARNING then ''WARNING''
      else if l = ERROR then ''ERROR''
      else if l = FATAL then ''FATAL''
      else [])"

subsection \<open>The vector clock (package vclock)\<close>

text \<open>
  \<^verbatim>\<open>vclock.VClock\<close> is a Go map from process identifier to \<^verbatim>\<open>uint64\<close>. The package
  is imported by govec.go and is not among the sources, so its operations are written
  from section 4.1 of the specification, under the names govec.go calls them by.
\<close>

type_synonym VClock = "string \<rightharpoonup> 64 word"

text \<open>
  Modelled from the spec: \<^verbatim>\<open>vclock.New\<close> is missing; a clock is created empty and
  seeded by the first tick.
\<close>

definition New :: VClock where
  "New = Map.empty"

text \<open>
  Modelled from the spec: \<^verbatim>\<open>VClock.Tick\<close> is missing; "increments counters[pid] by 1,
  creating the entry at 1 if absent". The counter is a \<^verbatim>\<open>uint64\<close>, so the
  increment wraps.
\<close>

definition Tick :: "string \<Rightarrow> VClock \<Rightarrow> VClock" where
  "Tick p vc = vc(p \<mapsto> (case vc p of None \<Rightarrow> 1 | Some n \<Rightarrow> n + 1))"

text \<open>
  Modelled from the spec: \<^verbatim>\<open>VClock.Merge\<close> is missing; "for every key k in
  otherCounters, sets counters[k] = max(counters[k] (default 0), otherCounters[k]).
  Keys present only in the local clock are untouched."
\<close>

definition Merge :: "(string \<rightharpoonup> 64 word) \<Rightarrow> VClock \<Rightarrow> VClock" where
  "Merge other vc =
     (\<lambda>k. case other k of
            None \<Rightarrow> vc k
          | Some v \<Rightarrow> Some (max (case vc k of None \<Rightarrow> 0 | Some n \<Rightarrow> n) v))"

text \<open>
  Modelled from the spec: \<^verbatim>\<open>VClock.FindTicks\<close> is missing; "returns the counter for
  pid and whether it is present".
\<close>

definition FindTicks :: "string \<Rightarrow> VClock \<Rightarrow> 64 word \<times> bool" where
  "FindTicks p vc = (case vc p of None \<Rightarrow> (0, False) | Some n \<Rightarrow> (n, True))"

text \<open>
  Modelled from the spec: \<^verbatim>\<open>VClock.GetMap\<close> is missing; it "returns an immutable
  copy of counters". In a value model the copy is the map itself.
\<close>

definition GetMap :: "VClock \<Rightarrow> (string \<rightharpoonup> 64 word)" where
  "GetMap vc = vc"

subsection \<open>Errors\<close>

text \<open>
  Go's \<^verbatim>\<open>error\<close> values: the end of the input, a value the codec cannot encode, an
  item of the wrong kind for its destination, and whatever a plugged-in strategy reports.
\<close>

datatype error = EOF | UnsupportedType | TypeMismatch | StrategyError string

text \<open>
  A line of the internal diagnostic logger is a text of the program's own, or the text
  \<^verbatim>\<open>err.Error()\<close> of an error value. The message texts belong to the codec library
  and depend on the encoded bytes and on the Go type at hand; a line of the second kind
  is identified by the error it renders.
\<close>

datatype logline = Line string | Error error

subsection \<open>The msgpack encoder and decoder (package msgpack)\<close>

text \<open>
  The codec library is an external package. Its wire format is modelled at the
  granularity of its own primitives: the encoded bytes are a sequence of typed items,
  one per call of an \<^verbatim>\<open>Encode...\<close> primitive, and each \<^verbatim>\<open>Decode...\<close> primitive
  consumes one item of its kind, fails on an item of another kind and reports \<open>EOF\<close>
  on exhausted input. An encoded nil is read by every primitive as the zero value of its
  kind: the empty string, the number 0, and a map length under which the loop over the
  entries does not run. Application payloads are scalar values; \<open>PFunc\<close> stands for a Go
  value the codec has no encoding for (a \<^verbatim>\<open>func()\<close>).
\<close>

datatype payload = PNil | PBool bool | PUint "64 word" | PString string | PFunc

datatype token = TNil | TBool bool | TUint "64 word" | TStr string | TMapLen nat

type_synonym wire = "token list"

definition EncodeString :: "string \<Rightarrow> wire \<Rightarrow> error option \<times> wire" where
  "EncodeString s enc = (None, enc @ [TStr s])"

definition EncodeUint :: "64 word \<Rightarrow> wire \<Rightarrow> error option \<times> wire" where
  "EncodeUint v enc = (None, enc @ [TUint v])"

definition EncodeMapLen :: "nat \<Rightarrow> wire \<Rightarrow> error option \<times> wire" where
  "EncodeMapLen n enc = (None, enc @ [TMapLen n])"

fun Encode :: "payload \<Rightarrow> wire \<Rightarrow> error option \<times> wire" where
  "Encode PNil enc = (None, enc @ [TNil])"
| "Encode (PBool b) enc = (None, enc @ [TBool b])"
| "Encode (PUint v) enc = (None, enc @ [TUint v])"
| "Encode (PString s) enc = (None, enc @ [TStr s])"
| "Encode PFunc enc = (Some UnsupportedType, enc)"

fun DecodeString :: "wire \<Rightarrow> error + (string \<times> wire)" where
  "DecodeString [] = Inl EOF"
| "DecodeString (TStr s # dec) = Inr (s, dec)"
| "DecodeString (TNil # dec) = Inr ([], dec)"
| "DecodeString (_ # dec) = Inl TypeMismatch"

fun DecodeUint64 :: "wire \<Rightarrow> error + (64 word \<times> wire)" where
  "DecodeUint64 [] = Inl EOF"
| "DecodeUint64 (TUint v # dec) = Inr (v, dec)"
| "DecodeUint64 (TNil # dec) = Inr (0, dec)"
| "DecodeUint64 (_ # dec) = Inl TypeMismatch"

fun DecodeMapLen :: "wire \<Rightarrow> error + (nat \<times> wire)" where
  "DecodeMapLen [] = Inl EOF"
| "DecodeMapLen (TMapLen n # dec) = Inr (n, dec)"
| "DecodeMapLen (TNil # dec) = Inr (0, dec)"
| "DecodeMapLen (_ # dec) = Inl TypeMismatch"

text \<open>
  \<^verbatim>\<open>dec.Decode(&d.Payload)\<close> decodes into the destination the caller stored in
  \<^verbatim>\<open>d.Payload\<close>: the destination's current value gives the kind that is expected, and
  \<open>PNil\<close> (an empty interface) accepts every scalar. An encoded nil is accepted for
  every destination and leaves the destination as it is.
\<close>

fun item_value :: "token \<Rightarrow> payload option" where
  "item_value TNil = Some PNil"
| "item_value (TBool b) = Some (PBool b)"
| "item_value (TUint v) = Some (PUint v)"
| "item_value (TStr s) = Some (PString s)"
| "item_value (TMapLen n) = None"

fun fits :: "payload \<Rightarrow> payload \<Rightarrow> bool" where
  "fits PNil v = True"
| "fits (PBool a) (PBool b) = True"
| "fits (PUint a) (PUint b) = True"
| "fits (PString a) (PString b) = True"
| "fits target v = False"

fun Decode :: "payload \<Rightarrow> wire \<Rightarrow> error + (payload \<times> wire)" where
  "Decode target [] = Inl EOF"
| "Decode target (TNil # dec) = Inr (target, dec)"
| "Decode target (t # dec) =
     (case item_value t of
        None \<Rightarrow> Inl TypeMismatch
      | Some v \<Rightarrow> if fits target v then Inr (v, dec) else Inl TypeMismatch)"

subsection \<open>The envelope on the wire\<close>

record ClockPayload =
  Pid :: string
  VcMap :: "string \<rightharpoonup> 64 word"
  Payload :: payload

text \<open>
  \<^verbatim>\<open>for key, value := range d.VcMap\<close> visits the entries of a Go map in an order the
  runtime chooses. The order is a parameter \<open>rng\<close>: a function that lists the entries
  of a map. \<open>valid_range\<close> says that the list is an enumeration of exactly the entries
  of the map, each once.
\<close>

type_synonym range_order = "(string \<rightharpoonup> 64 word) \<Rightarrow> (string \<times> 64 word) list"


fun encodeEntries :: "(string \<times> 64 word) list \<Rightarrow> wire \<Rightarrow> error option \<times> wire" where
  "encodeEntries [] enc = (None, enc)"
| "encodeEntries ((key, value) # rest) enc =
     (case EncodeString key enc of
        (Some err, enc1) \<Rightarrow> (Some err, enc1)
      | (None, enc1) \<Rightarrow>
          (case EncodeUint value enc1 of
             (Some err, enc2) \<Rightarrow> (Some err, enc2)
           | (None, enc2) \<Rightarrow> encodeEntries rest enc2))"

definition EncodeMsgpack :: "range_order \<Rightarrow> ClockPayload \<Rightarrow> wire \<Rightarrow> error option \<times> wire" where
  "EncodeMsgpack rng d enc =
     (case EncodeString (Pid d) enc of
        (Some err, enc1) \<Rightarrow> (Some err, enc1)
      | (None, enc1) \<Rightarrow>
          (case Encode (Payload d) enc1 of
             (Some err, enc2) \<Rightarrow> (Some err, enc2)
           | (None, enc2) \<Rightarrow>
               (case EncodeMapLen (length (rng (VcMap d))) enc2 of
                  (Some err, enc3) \<Rightarrow> (Some err, enc3)
                | (None, enc3) \<Rightarrow> encodeEntries (rng (VcMap d)) enc3)))"

fun decodeEntries ::
  "nat \<Rightarrow> (string \<rightharpoonup> 64 word) \<Rightarrow> wire \<Rightarrow> error + ((string \<rightharpoonup> 64 word) \<times> wire)" where
  "decodeEntries 0 vcMap dec = Inr (vcMap, dec)"
| "decodeEntries (Suc n) vcMap dec =
     (case DecodeString dec of
        Inl err \<Rightarrow> Inl err
      | Inr (key, dec1) \<Rightarrow>
          (case DecodeUint64 dec1 of
             Inl err \<Rightarrow> Inl err
           | Inr (value, dec2) \<Rightarrow> decodeEntries n (vcMap(key \<mapsto> value)) dec2))"

text \<open>
  \<^verbatim>\<open>dec.Decode(&d.Pid, &d.Payload, &d.VcMap)\<close>, the last call of \<^verbatim>\<open>DecodeMsgpack\<close>:
  three more values are decoded from what is left of the input, one after the other,
  into the three fields; the first failure stops it and leaves the later fields alone.
  Decoding into \<^verbatim>\<open>&d.Pid\<close> assigns the result of \<^verbatim>\<open>DecodeString\<close> together with its
  error, so a failure there (the end of the input, after a complete envelope) stores
  the empty string in \<^verbatim>\<open>d.Pid\<close>.
\<close>

definition DecodeMulti :: "ClockPayload \<Rightarrow> wire \<Rightarrow> error option \<times> ClockPayload" where
  "DecodeMulti d dec =
     (case DecodeString dec of
        Inl err \<Rightarrow> (Some err, d\<lparr>Pid := []\<rparr>)
      | Inr (s, dec1) \<Rightarrow>
          (case Decode (Payload d) dec1 of
             Inl err \<Rightarrow> (Some err, d\<lparr>Pid := s\<rparr>)
           | Inr (p, dec2) \<Rightarrow>
               (case DecodeMapLen dec2 of
                  Inl err \<Rightarrow> (Some err, d\<lparr>Pid := s, Payload := p\<rparr>)
                | Inr (n, dec3) \<Rightarrow>
                    (case decodeEntries n Map.empty dec3 of
                       Inl err \<Rightarrow> (Some err, d\<lparr>Pid := s, Payload := p\<rparr>)
                     | Inr (m, dec4) \<Rightarrow> (None, d\<lparr>Pid := s, Payload := p, VcMap := m\<rparr>)))))"

definition DecodeMsgpack :: "ClockPayload \<Rightarrow> wire \<Rightarrow> error option \<times> ClockPayload" where
  "DecodeMsgpack d dec =
     (case DecodeString dec of
        Inl err \<Rightarrow> (Some err, d)
      | Inr (pid, dec1) \<Rightarrow>
          (let d1 = d\<lparr>Pid := pid\<rparr> in
           case Decode (Payload d1) dec1 of
             Inl err \<Rightarrow> (Some err, d1)
           | Inr (p, dec2) \<Rightarrow>
               (let d2 = d1\<lparr>Payload := p\<rparr> in
                case DecodeMapLen dec2 of
                  Inl err \<Rightarrow> (Some err, d2)
                | Inr (mapLen, dec3) \<Rightarrow>
                    (case decodeEntries mapLen Map.empty dec3 of
                       Inl err \<Rightarrow> (Some err, d2)
                     | Inr (vcMap, dec4) \<Rightarrow>
                         (case DecodeMulti d2 dec4 of
                            (err, d3) \<Rightarrow> (err, d3\<lparr>VcMap := vcMap\<rparr>))))))"

text \<open>
  \<^verbatim>\<open>DefaultEncoder\<close> is \<^verbatim>\<open>msgpack.Marshal\<close> and \<^verbatim>\<open>DefaultDecoder\<close> is
  \<^verbatim>\<open>msgpack.Unmarshal\<close>; on a \<^verbatim>\<open>*ClockPayload\<close> they run the two custom methods above,
  on an empty buffer and on the received bytes. \<^verbatim>\<open>Marshal\<close> returns the content of its
  buffer together with the error, so after a failure the bytes are what had been written
  before it.
\<close>

definition DefaultEncoder :: "range_order \<Rightarrow> ClockPayload \<Rightarrow> wire \<times> error option" where
  "DefaultEncoder rng d = (case EncodeMsgpack rng d [] of (err, enc) \<Rightarrow> (enc, err))"

definition DefaultDecoder :: "wire \<Rightarrow> ClockPayload \<Rightarrow> error option \<times> ClockPayload" where
  "DefaultDecoder buf d = DecodeMsgpack d buf"

subsection \<open>The logger\<close>

record GoLogConfig =
  Buffered :: bool
  PrintOnScreen :: bool
  AppendLog :: bool
  UseTimestamps :: bool
  EncodingStrategy :: "(ClockPayload \<Rightarrow> wire \<times> error option) option"
  DecodingStrategy :: "(wire \<Rightarrow> ClockPayload \<Rightarrow> error option \<times> ClockPayload) option"
  LogToFile :: bool
  Priority :: LogPriority

definition GetDefaultConfig :: GoLogConfig where
  "GetDefaultConfig =
     \<lparr>Buffered = False, PrintOnScreen = False, AppendLog = False, UseTimestamps = False,
      EncodingStrategy = None, DecodingStrategy = None, LogToFile = True, Priority = INFO\<rparr>"

text \<open>
  The struct \<^verbatim>\<open>GoLog\<close>. \<open>logger\<close> is the text the internal diagnostic logger has
  received, \<open>mutex\<close> says whether the lock is held. The last two fields are not part
  of the struct: \<open>disk\<close> is the content of the file named \<open>logfile\<close> (\<open>None\<close> when
  there is no such file) and \<open>console\<close> is what has been printed on the screen.
\<close>

record GoLog =
  pid :: string
  currentVC :: VClock
  printonscreen :: bool
  logging :: bool
  buffered :: bool
  usetimestamps :: bool
  appendLog :: bool
  priority :: LogPriority
  logfile :: string
  gv_output :: string
  encodingStrategy :: "ClockPayload \<Rightarrow> wire \<times> error option"
  decodingStrategy :: "wire \<Rightarrow> ClockPayload \<Rightarrow> error option \<times> ClockPayload"
  logger :: "logline list"
  mutex :: bool
  disk :: "string option"
  console :: "string list"

text \<open>
  What a call reads from outside the program: whether the system calls on the log file
  succeed, the wall clock in the two formats used, the order in which the runtime ranges
  over a map, and the text rendering of a clock (\<^verbatim>\<open>ReturnVCString\<close> of package vclock,
  which the specification leaves open: "not specified bit-exactly").
\<close>

record extern =
  open_ok :: bool
  write_ok :: bool
  create_ok :: bool
  remove_ok :: bool
  mkdir_ok :: bool
  now_nano :: string
  now_unix :: string
  range_of :: range_order
  ReturnVCString :: "VClock \<Rightarrow> string"

definition Println :: "logline \<Rightarrow> GoLog \<Rightarrow> GoLog" where
  "Println s gv = gv\<lparr>logger := logger gv @ [s]\<rparr>"

definition setEncoderDecoder ::
  "(ClockPayload \<Rightarrow> wire \<times> error option) \<Rightarrow> (wire \<Rightarrow> ClockPayload \<Rightarrow> error option \<times> ClockPayload)
     \<Rightarrow> GoLog \<Rightarrow> GoLog" where
  "setEncoderDecoder encoder decoder gv =
     gv\<lparr>encodingStrategy := encoder, decodingStrategy := decoder\<rparr>"

definition EnableBufferedWrites :: "GoLog \<Rightarrow> GoLog" where
  "EnableBufferedWrites gv = gv\<lparr>buffered := True\<rparr>"

text \<open>
  \<^verbatim>\<open>Flush\<close>: the file is opened for appending without being created, so opening fails
  when it does not exist; writing to the nil handle of a failed open fails too. The
  buffer is cleared in every case.
\<close>

definition Flush :: "extern \<Rightarrow> GoLog \<Rightarrow> bool \<times> GoLog" where
  "Flush ext gv =
     (let complete = True;
          file = (if open_ok ext then disk gv else None);
          complete = (if file = None then False else complete);
          written = (file \<noteq> None \<and> write_ok ext);
          complete = (if \<not> written then False else complete);
          disk1 = (case disk gv of
                     None \<Rightarrow> None
                   | Some content \<Rightarrow> if written then Some (content @ gv_output gv) else Some content)
      in (complete, gv\<lparr>gv_output := [], disk := disk1\<rparr>))"

definition DisableBufferedWrites :: "extern \<Rightarrow> GoLog \<Rightarrow> GoLog" where
  "DisableBufferedWrites ext gv =
     (let gv1 = gv\<lparr>buffered := False\<rparr>
      in if gv_output gv1 \<noteq> [] then snd (Flush ext gv1) else gv1)"

definition printColoredMessage :: "extern \<Rightarrow> string \<Rightarrow> LogPriority \<Rightarrow> GoLog \<Rightarrow> GoLog" where
  "printColoredMessage ext LogMessage Priority' gv =
     gv\<lparr>console := console gv @ [now_unix ext @ '':'' @ getPrefixString Priority' @ ''-'' @ LogMessage]\<rparr>"

definition logThis ::
  "extern \<Rightarrow> string \<Rightarrow> string \<Rightarrow> string \<Rightarrow> LogPriority \<Rightarrow> GoLog \<Rightarrow> bool \<times> GoLog" where
  "logThis ext Message ProcessID VCString Priority' gv =
     (let buffer = (if usetimestamps gv then now_nano ext @ '' '' else []);
          buffer = buffer @ ProcessID @ '' '' @ VCString @ [CHR 0x0A] @ Message @ [CHR 0x0A];
          gv1 = gv\<lparr>gv_output := gv_output gv @ buffer\<rparr>;
          (complete, gv2) = (if \<not> buffered gv1 then Flush ext gv1 else (True, gv1));
          gv3 = (if printonscreen gv2 then printColoredMessage ext Message Priority' gv2 else gv2)
      in (complete, gv3))"

definition logWriteWrapper ::
  "extern \<Rightarrow> string \<Rightarrow> string \<Rightarrow> LogPriority \<Rightarrow> GoLog \<Rightarrow> bool \<times> GoLog" where
  "logWriteWrapper ext logMessage errorMessage Priority' gv =
     (if logging gv then
        (case logThis ext logMessage (pid gv) (ReturnVCString ext (currentVC gv)) Priority' gv of
           (success, gv1) \<Rightarrow> if \<not> success then (success, Println (Line errorMessage) gv1) else (success, gv1))
      else (False, gv))"

definition tickClock :: "GoLog \<Rightarrow> GoLog" where
  "tickClock gv =
     (let gv1 = (if \<not> snd (FindTicks (pid gv) (currentVC gv))
                 then Println (Line ''Couldn't find this process's id in its own vector clock!'') gv
                 else gv)
      in gv1\<lparr>currentVC := Tick (pid gv1) (currentVC gv1)\<rparr>)"

text \<open>
  The mutex. \<^verbatim>\<open>Lock\<close> on a held lock waits until it is released; nothing in the
  program releases a lock on behalf of a call that has returned, so the wait never ends
  and the call has no result.
\<close>

definition Lock :: "GoLog \<Rightarrow> GoLog option" where
  "Lock gv = (if mutex gv then None else Some (gv\<lparr>mutex := True\<rparr>))"

definition Unlock :: "GoLog \<Rightarrow> GoLog" where
  "Unlock gv = gv\<lparr>mutex := False\<rparr>"

definition LogLocalEventWithPriority ::
  "extern \<Rightarrow> string \<Rightarrow> LogPriority \<Rightarrow> GoLog \<Rightarrow> (bool \<times> GoLog) option" where
  "LogLocalEventWithPriority ext LogMessage Priority' gv =
     (case Lock gv of
        None \<Rightarrow> None
      | Some gv1 \<Rightarrow>
          (case (if Priority' \<ge> priority gv1
                 then logWriteWrapper ext (getPrefixString Priority' @ '' - '' @ LogMessage)
                        ''Something went Wrong, Could not Log LocalEvent!'' Priority' (tickClock gv1)
                 else (True, gv1)) of
             (logSuccess, gv2) \<Rightarrow> Some (logSuccess, Unlock gv2)))"

definition LogLocalEvent :: "extern \<Rightarrow> string \<Rightarrow> GoLog \<Rightarrow> (bool \<times> GoLog) option" where
  "LogLocalEvent ext Message gv = LogLocalEventWithPriority ext Message (priority gv) gv"

text \<open>
  \<^verbatim>\<open>PrepareSendWithPriority\<close> returns the encoded bytes (nil, here the empty sequence,
  when the event is suppressed). The call of \<^verbatim>\<open>Unlock\<close> stands inside the
  \<^verbatim>\<open>if\<close>, as in the source.
\<close>

definition PrepareSendWithPriority ::
  "extern \<Rightarrow> string \<Rightarrow> payload \<Rightarrow> LogPriority \<Rightarrow> GoLog \<Rightarrow> (wire \<times> GoLog) option" where
  "PrepareSendWithPriority ext mesg buf Priority' gv =
     (case Lock gv of
        None \<Rightarrow> None
      | Some gv1 \<Rightarrow>
          if Priority' \<ge> priority gv1 then
            (let gv2 = tickClock gv1;
                 gv3 = snd (logWriteWrapper ext mesg
                              ''Something went wrong, could not log prepare send'' Priority' gv2);
                 d = \<lparr>Pid = pid gv3, VcMap = GetMap (currentVC gv3), Payload = buf\<rparr>
             in case encodingStrategy gv3 d of
                  (encodedBytes, err) \<Rightarrow>
                    (let gv4 = (case err of None \<Rightarrow> gv3 | Some e \<Rightarrow> Println (Error e) gv3)
                     in Some (encodedBytes, Unlock gv4)))
          else Some ([], gv1))"

definition PrepareSend :: "extern \<Rightarrow> string \<Rightarrow> payload \<Rightarrow> GoLog \<Rightarrow> (wire \<times> GoLog) option" where
  "PrepareSend ext mesg buf gv = PrepareSendWithPriority ext mesg buf (priority gv) gv"

definition mergeIncomingClock ::
  "extern \<Rightarrow> string \<Rightarrow> ClockPayload \<Rightarrow> LogPriority \<Rightarrow> GoLog \<Rightarrow> GoLog" where
  "mergeIncomingClock ext mesg e Priority' gv =
     (let gv1 = tickClock gv;
          gv2 = gv1\<lparr>currentVC := Merge (VcMap e) (currentVC gv1)\<rparr>
      in snd (logWriteWrapper ext mesg ''Something went Wrong, Could not Log!'' Priority' gv2))"

text \<open>
  \<^verbatim>\<open>UnpackReceiveWithPriority\<close> returns nothing; its effect on the caller is the value
  left in the destination \<^verbatim>\<open>unpack\<close>, which the model returns. The envelope \<open>e\<close>
  starts with its zero value and the destination as payload. Again \<^verbatim>\<open>Unlock\<close> stands
  inside the \<^verbatim>\<open>if\<close>.
\<close>

definition UnpackReceiveWithPriority ::
  "extern \<Rightarrow> string \<Rightarrow> wire \<Rightarrow> payload \<Rightarrow> LogPriority \<Rightarrow> GoLog \<Rightarrow> (payload \<times> GoLog) option" where
  "UnpackReceiveWithPriority ext mesg buf unpack Priority' gv =
     (case Lock gv of
        None \<Rightarrow> None
      | Some gv1 \<Rightarrow>
          if Priority' \<ge> priority gv1 then
            (let e = \<lparr>Pid = [], VcMap = Map.empty, Payload = unpack\<rparr>
             in case decodingStrategy gv1 buf e of
                  (err, e1) \<Rightarrow>
                    (let gv2 = (case err of None \<Rightarrow> gv1 | Some er \<Rightarrow> Println (Error er) gv1);
                         gv3 = mergeIncomingClock ext mesg e1 Priority' gv2
                     in Some (Payload e1, Unlock gv3)))
          else Some (unpack, gv1))"

definition UnpackReceive :: "extern \<Rightarrow> string \<Rightarrow> wire \<Rightarrow> payload \<Rightarrow> GoLog \<Rightarrow> (payload \<times> GoLog) option" where
  "UnpackReceive ext mesg buf unpack gv = UnpackReceiveWithPriority ext mesg buf unpack (priority gv) gv"

subsection \<open>Initialisation\<close>

text \<open>
  \<^verbatim>\<open>prepareLogFile\<close>: \<^verbatim>\<open>os.Stat\<close> succeeds when the file exists; \<^verbatim>\<open>os.Remove\<close>
  and \<^verbatim>\<open>os.Create\<close> may fail, and their failure is at most logged. A created file is
  empty.
\<close>

definition prepareLogFile :: "extern \<Rightarrow> GoLog \<Rightarrow> GoLog" where
  "prepareLogFile ext gv =
     (if disk gv \<noteq> None \<and> appendLog gv then
        (let gv1 = Println (Line (''Execution Number is   '' @ now_unix ext)) gv
         in snd (logThis ext (''=== Execution #'' @ now_unix ext @ ''  ==='') [] [] (priority gv1) gv1))
      else
        (let gv1 = (if disk gv \<noteq> None
                    then (let g = Println (Line (logfile gv @ '' exists! ... Deleting '')) gv
                          in if remove_ok ext then g\<lparr>disk := None\<rparr> else g)
                    else gv);
             gv2 = (if mkdir_ok ext then gv1 else Println (Line ''mkdir failed'') gv1);
             gv3 = (if create_ok ext then gv2\<lparr>disk := Some []\<rparr> else Println (Line ''create failed'') gv2);
             gv4 = (if appendLog gv3
                    then (let g = Println (Line (''Execution Number is   '' @ now_unix ext)) gv3
                          in snd (logThis ext (''=== Execution #'' @ now_unix ext @ ''  ==='') [] []
                                    (priority g) g))
                    else gv3)
         in case logThis ext ''Initialization Complete'' (pid gv4)
                   (ReturnVCString ext (currentVC gv4)) (priority gv4) gv4 of
              (ok, gv5) \<Rightarrow> if ok = False
                           then Println (Line ''Something went Wrong, Could not Log!'') gv5
                           else gv5))"

text \<open>
  \<^verbatim>\<open>InitGoVector\<close>. \<open>fs\<close> is the content of the log file before the call (\<open>None\<close> when
  there is none). The struct starts with the zero value of every field. The diagnostic
  \<^verbatim>\<open>print(config.EncodingStrategy)\<close> writes to standard error and changes nothing else.
\<close>

definition InitGoVector :: "extern \<Rightarrow> string option \<Rightarrow> string \<Rightarrow> string \<Rightarrow> GoLogConfig \<Rightarrow> GoLog" where
  "InitGoVector ext fs processid logfilename config =
     (let gv = \<lparr>pid = processid, currentVC = Map.empty,
                printonscreen = PrintOnScreen config, logging = LogToFile config,
                buffered = Buffered config, usetimestamps = UseTimestamps config,
                appendLog = AppendLog config, priority = Priority config,
                logfile = [], gv_output = [],
                encodingStrategy = DefaultEncoder (range_of ext),
                decodingStrategy = DefaultDecoder,
                logger = [], mutex = False, disk = fs, console = []\<rparr>;
          gv = (case (EncodingStrategy config, DecodingStrategy config) of
                  (Some enc, Some dec) \<Rightarrow> setEncoderDecoder enc dec gv
                | _ \<Rightarrow> setEncoderDecoder (DefaultEncoder (range_of ext)) DefaultDecoder gv);
          vc1 = Tick processid New;
          gv = gv\<lparr>currentVC := vc1\<rparr>;
          gv = gv\<lparr>logfile := logfilename @ ''-Log.txt''\<rparr>
      in prepareLogFile ext gv)"

subsection \<open>Reachable states\<close>

text \<open>
  The fields of \<^verbatim>\<open>GoLog\<close> are private to the package, so a program reaches a logger
  state only through \<^verbatim>\<open>InitGoVector\<close> and the exported methods, each of which must
  have returned. The log file can change under the logger at any time.
\<close>

inductive reachable :: "GoLog \<Rightarrow> bool" where
  r_init: "reachable (InitGoVector ext fs processid logfilename config)"
| r_file: "reachable gv \<Longrightarrow> reachable (gv\<lparr>disk := d\<rparr>)"
| r_enable: "reachable gv \<Longrightarrow> reachable (EnableBufferedWrites gv)"
| r_disable: "reachable gv \<Longrightarrow> reachable (DisableBufferedWrites ext gv)"
| r_flush: "reachable gv \<Longrightarrow> reachable (snd (Flush ext gv))"
| r_local: "reachable gv \<Longrightarrow> LogLocalEventWithPriority ext m p gv = Some (ok, gv') \<Longrightarrow> reachable gv'"
| r_send: "reachable gv \<Longrightarrow> PrepareSendWithPriority ext m buf p gv = Some (bytes, gv') \<Longrightarrow> reachable gv'"
| r_receive: "reachable gv \<Longrightarrow> UnpackReceiveWithPriority ext m bytes unpack p gv = Some (v, gv')
     \<Longrightarrow> reachable gv'"

subsection \<open>Observations and example inputs\<close>

text \<open>What a caller can observe of a call that may not return.\<close>

definition clock_after :: "('a \<times> GoLog) option \<Rightarrow> VClock option" where
  "clock_after r = (case r of None \<Rightarrow> None | Some (v, gv) \<Rightarrow> Some (currentVC gv))"

definition lock_held_after :: "('a \<times> GoLog) option \<Rightarrow> bool option" where
  "lock_held_after r = (case r of None \<Rightarrow> None | Some (v, gv) \<Rightarrow> Some (mutex gv))"

definition state_after :: "('a \<times> GoLog) option \<Rightarrow> GoLog option" where
  "state_after r = (case r of None \<Rightarrow> None | Some (v, gv) \<Rightarrow> Some gv)"

definition value_after :: "('a \<times> GoLog) option \<Rightarrow> 'a option" where
  "value_after r = (case r of None \<Rightarrow> None | Some (v, gv) \<Rightarrow> Some v)"

text \<open>A range order that visits the keys of a map in the order of a given list.\<close>

definition list_range :: "string list \<Rightarrow> range_order" where
  "list_range ks m = List.map_filter (\<lambda>k. map_option (Pair k) (m k)) ks"

definition env_ok :: extern where
  "env_ok = \<lparr>open_ok = True, write_ok = True, create_ok = True, remove_ok = True,
             mkdir_ok = True, now_nano = ''0'', now_unix = ''now'',
             range_of = list_range [''P1'', ''P2''], ReturnVCString = (\<lambda>vc. ''{}'')\<rparr>"

definition env_write_fails :: extern where
  "env_write_fails = env_ok\<lparr>write_ok := False\<rparr>"

text \<open>The loggers of the scenarios: \<^verbatim>\<open>("P1", INFO)\<close> and \<^verbatim>\<open>("P2", INFO)\<close>, just initialised.\<close>

definition P1_logger :: GoLog where
  "P1_logger = InitGoVector env_ok None ''P1'' ''p1'' GetDefaultConfig"

definition P2_logger :: GoLog where
  "P2_logger = InitGoVector env_ok None ''P2'' ''p2'' GetDefaultConfig"

definition empty_envelope :: "payload \<Rightarrow> ClockPayload" where
  "empty_envelope unpack = \<lparr>Pid = [], VcMap = Map.empty, Payload = unpack\<rparr>"

text \<open>
  The invariant of the pending-output buffer: in unbuffered mode nothing is pending.
\<close>

definition buffer_inv :: "GoLog \<Rightarrow> bool" where
  "buffer_inv gv = (buffered gv \<or> gv_output gv = [])"

section \<open>Properties\<close>

subsection \<open>What the helpers leave alone\<close>

lemma Flush_fields [simp]:
  "gv_output (snd (Flush ext gv)) = []"
  "currentVC (snd (Flush ext gv)) = currentVC gv"
  "mutex (snd (Flush ext gv)) = mutex gv"
  "buffered (snd (Flush ext gv)) = buffered gv"
  "pid (snd (Flush ext gv)) = pid gv"
  "priority (snd (Flush ext gv)) = priority gv"
  by (simp_all add: Flush_def Let_def)

lemma logThis_fields [simp]:
  "currentVC (snd (logThis ext m p v pr gv)) = currentVC gv"
  "mutex (snd (logThis ext m p v pr gv)) = mutex gv"
  "buffered (snd (logThis ext m p v pr gv)) = buffered gv"
  "pid (snd (logThis ext m p v pr gv)) = pid gv"
  "priority (snd (logThis ext m p v pr gv)) = priority gv"
  by (simp_all add: logThis_def printColoredMessage_def Flush_def Let_def split: prod.splits)

lemma logThis_output:
  "\<not> buffered gv \<Longrightarrow> gv_output (snd (logThis ext m p v pr gv)) = []"
  by (simp add: logThis_def printColoredMessage_def Flush_def Let_def split: prod.splits)

lemma logWriteWrapper_fields [simp]:
  "currentVC (snd (logWriteWrapper ext m e pr gv)) = currentVC gv"
  "mutex (snd (logWriteWrapper ext m e pr gv)) = mutex gv"
  "buffered (snd (logWriteWrapper ext m e pr gv)) = buffered gv"
  "pid (snd (logWriteWrapper ext m e pr gv)) = pid gv"
  "priority (snd (logWriteWrapper ext m e pr gv)) = priority gv"
  by (simp_all add: logWriteWrapper_def Println_def case_prod_beta)

lemma tickClock_fields [simp]:
  "currentVC (tickClock gv) = Tick (pid gv) (currentVC gv)"
  "mutex (tickClock gv) = mutex gv"
  "buffered (tickClock gv) = buffered gv"
  "gv_output (tickClock gv) = gv_output gv"
  "pid (tickClock gv) = pid gv"
  "priority (tickClock gv) = priority gv"
  "disk (tickClock gv) = disk gv"
  by (simp_all add: tickClock_def Println_def Let_def)

lemma prepareLogFile_fields [simp]:
  "currentVC (prepareLogFile ext gv) = currentVC gv"
  "mutex (prepareLogFile ext gv) = mutex gv"
  "pid (prepareLogFile ext gv) = pid gv"
  "priority (prepareLogFile ext gv) = priority gv"
  "buffered (prepareLogFile ext gv) = buffered gv"
  by (simp_all add: prepareLogFile_def Println_def Let_def case_prod_beta)

subsection \<open>Flush\<close>

text \<open>
  Claim C10. After every call of \<^verbatim>\<open>Flush\<close> the pending-output buffer is empty, also
  when the log file cannot be opened or the write fails; in that case \<^verbatim>\<open>Flush\<close>
  returns false and the file is as it was: the buffered text is discarded, not kept
  for another attempt.
\<close>

theorem Flush_discards_buffer:
  "gv_output (snd (Flush ext gv)) = [] \<and>
   (disk gv = None \<or> \<not> open_ok ext \<or> \<not> write_ok ext \<longrightarrow>
      fst (Flush ext gv) = False \<and> disk (snd (Flush ext gv)) = disk gv)"
  by (auto simp: Flush_def Let_def split: option.splits)

theorem Flush_discards_buffer_witness:
  "(disk (P1_logger\<lparr>gv_output := ''pending''\<rparr>) = None \<or> \<not> open_ok env_write_fails
      \<or> \<not> write_ok env_write_fails) \<and>
   gv_output (P1_logger\<lparr>gv_output := ''pending''\<rparr>) = ''pending'' \<and>
   gv_output (snd (Flush env_write_fails (P1_logger\<lparr>gv_output := ''pending''\<rparr>))) = [] \<and>
   fst (Flush env_write_fails (P1_logger\<lparr>gv_output := ''pending''\<rparr>)) = False \<and>
   disk (snd (Flush env_write_fails (P1_logger\<lparr>gv_output := ''pending''\<rparr>)))
     = disk (P1_logger\<lparr>gv_output := ''pending''\<rparr>)"
  using Flush_discards_buffer [of env_write_fails "P1_logger\<lparr>gv_output := ''pending''\<rparr>"]
  by (simp add: env_write_fails_def env_ok_def)

subsection \<open>Initialisation and local events\<close>

lemma Init_clock: "currentVC (InitGoVector ext fs processid logfilename config) = [processid \<mapsto> 1]"
  by (simp add: InitGoVector_def Let_def setEncoderDecoder_def Tick_def New_def split: option.splits prod.splits)

lemma Init_fields [simp]:
  "mutex (InitGoVector ext fs processid logfilename config) = False"
  "pid (InitGoVector ext fs processid logfilename config) = processid"
  "priority (InitGoVector ext fs processid logfilename config) = Priority config"
  "buffered (InitGoVector ext fs processid logfilename config) = Buffered config"
  by (simp_all add: InitGoVector_def Let_def setEncoderDecoder_def split: option.splits prod.splits)

lemma LocalEvent_passes:
  "\<not> mutex gv \<Longrightarrow> priority gv \<le> p \<Longrightarrow>
   \<exists>ok gv'. LogLocalEventWithPriority ext m p gv = Some (ok, gv') \<and>
     currentVC gv' = Tick (pid gv) (currentVC gv) \<and> \<not> mutex gv'"
  by (simp add: LogLocalEventWithPriority_def Lock_def Unlock_def case_prod_beta)

text \<open>
  Claim C7. \<^verbatim>\<open>InitGoVector\<close> creates the clock with exactly one entry, the owning
  process at counter 1, whatever the configuration and the state of the log file; a
  \<^verbatim>\<open>LogLocalEvent\<close> at the logger's own priority then returns with the clock at
  counter 2 for the owner and no other entry. For the logger \<^verbatim>\<open>("P1", INFO)\<close> and the
  message "start" the clock becomes \<open>{P1:2}\<close>.
\<close>

theorem Init_then_LocalEvent:
  "currentVC (InitGoVector ext fs processid logfilename config) = [processid \<mapsto> 1] \<and>
   (\<exists>ok gv'. LogLocalEvent ext' ''start'' (InitGoVector ext fs processid logfilename config) = Some (ok, gv')
      \<and> currentVC gv' = [processid \<mapsto> 2]) \<and>
   priority P1_logger = INFO \<and>
   clock_after (LogLocalEvent env_ok ''start'' P1_logger) = Some [''P1'' \<mapsto> 2]"
proof -
  let ?gv = "InitGoVector ext fs processid logfilename config"
  have c: "currentVC ?gv = [processid \<mapsto> 1]" by (rule Init_clock)
  have "\<not> mutex ?gv" "priority ?gv \<le> priority ?gv" by simp_all
  from LocalEvent_passes [OF this, of ext' "''start''"]
  obtain ok gv' where e: "LogLocalEventWithPriority ext' ''start'' (priority ?gv) ?gv = Some (ok, gv')"
    and v: "currentVC gv' = Tick (pid ?gv) (currentVC ?gv)" by blast
  have t: "Tick processid [processid \<mapsto> 1] = [processid \<mapsto> 2]"
    by (simp add: Tick_def)
  have g: "\<exists>ok gv'. LogLocalEvent ext' ''start'' ?gv = Some (ok, gv') \<and> currentVC gv' = [processid \<mapsto> 2]"
    using e v c t by (simp add: LogLocalEvent_def)
  have "\<not> mutex P1_logger" "priority P1_logger \<le> priority P1_logger" by (simp_all add: P1_logger_def)
  from LocalEvent_passes [OF this, of env_ok "''start''"]
  obtain ok2 gv2 where e2: "LogLocalEventWithPriority env_ok ''start'' (priority P1_logger) P1_logger = Some (ok2, gv2)"
    and v2: "currentVC gv2 = Tick (pid P1_logger) (currentVC P1_logger)" by blast
  have s: "clock_after (LogLocalEvent env_ok ''start'' P1_logger) = Some [''P1'' \<mapsto> 2]"
    using e2 v2 by (simp add: LogLocalEvent_def clock_after_def P1_logger_def Init_clock Tick_def)
  have p: "priority P1_logger = INFO" by (simp add: P1_logger_def GetDefaultConfig_def)
  show ?thesis using c g p s by blast
qed

subsection \<open>Priority filtering\<close>

text \<open>
  Claim C8. A \<^verbatim>\<open>LogLocalEventWithPriority\<close>, \<^verbatim>\<open>PrepareSendWithPriority\<close> or
  \<^verbatim>\<open>UnpackReceiveWithPriority\<close> call on an idle logger with a priority strictly below
  the threshold returns and leaves the vector clock, the pending-output buffer and the
  log file exactly as they were.
\<close>

theorem suppressed_is_noop:
  assumes "\<not> mutex gv" and "p < priority gv"
  shows "(\<exists>ok gv'. LogLocalEventWithPriority ext m p gv = Some (ok, gv') \<and>
            currentVC gv' = currentVC gv \<and> gv_output gv' = gv_output gv \<and> disk gv' = disk gv) \<and>
         (\<exists>bytes gv'. PrepareSendWithPriority ext m buf p gv = Some (bytes, gv') \<and>
            currentVC gv' = currentVC gv \<and> gv_output gv' = gv_output gv \<and> disk gv' = disk gv) \<and>
         (\<exists>v gv'. UnpackReceiveWithPriority ext m w unpack p gv = Some (v, gv') \<and>
            currentVC gv' = currentVC gv \<and> gv_output gv' = gv_output gv \<and> disk gv' = disk gv)"
  using assms
  by (auto simp: LogLocalEventWithPriority_def PrepareSendWithPriority_def
      UnpackReceiveWithPriority_def Lock_def Unlock_def)

theorem suppressed_is_noop_witness:
  "\<not> mutex P1_logger \<and> DEBUG < priority P1_logger \<and>
   clock_after (LogLocalEventWithPriority env_ok ''m'' DEBUG P1_logger) = Some (currentVC P1_logger) \<and>
   clock_after (PrepareSendWithPriority env_ok ''m'' (PString ''x'') DEBUG P1_logger) = Some (currentVC P1_logger) \<and>
   clock_after (UnpackReceiveWithPriority env_ok ''m'' [] PNil DEBUG P1_logger) = Some (currentVC P1_logger)"
proof -
  have h: "\<not> mutex P1_logger" "DEBUG < priority P1_logger"
    by (simp_all add: P1_logger_def GetDefaultConfig_def DEBUG_def INFO_def)
  from suppressed_is_noop [OF h, of env_ok "''m''" "PString ''x''" "[]" PNil]
  show ?thesis using h by (auto simp: clock_after_def)
qed

subsection \<open>The lock\<close>

text \<open>
  Claim C2 says that every call returns with the lock released. On the logger
  \<^verbatim>\<open>("P1", INFO)\<close> a \<^verbatim>\<open>PrepareSendWithPriority\<close> or \<^verbatim>\<open>UnpackReceiveWithPriority\<close>
  at priority DEBUG returns with the lock still held, where \<^verbatim>\<open>LogLocalEventWithPriority\<close>
  releases it; the next call on the logger left by the suppressed send never returns.
\<close>

theorem suppressed_Send_keeps_lock:
  "lock_held_after (PrepareSendWithPriority env_ok ''m'' (PString ''x'') DEBUG P1_logger) = Some True \<and>
   lock_held_after (UnpackReceiveWithPriority env_ok ''m'' [] PNil DEBUG P1_logger) = Some True \<and>
   lock_held_after (LogLocalEventWithPriority env_ok ''m'' DEBUG P1_logger) = Some False \<and>
   (case state_after (PrepareSendWithPriority env_ok ''m'' (PString ''x'') DEBUG P1_logger) of
      None \<Rightarrow> False
    | Some gv \<Rightarrow> LogLocalEvent env_ok ''next'' gv = None)"
proof -
  have h: "\<not> mutex P1_logger" "DEBUG < priority P1_logger"
    by (simp_all add: P1_logger_def GetDefaultConfig_def DEBUG_def INFO_def)
  then show ?thesis
    by (simp add: LogLocalEventWithPriority_def PrepareSendWithPriority_def LogLocalEvent_def
      UnpackReceiveWithPriority_def Lock_def Unlock_def lock_held_after_def state_after_def)
qed

subsection \<open>The default codec\<close>






subsection \<open>Send and receive when the priority passes\<close>

lemma Flush_strategies [simp]:
  "encodingStrategy (snd (Flush ext gv)) = encodingStrategy gv"
  "decodingStrategy (snd (Flush ext gv)) = decodingStrategy gv"
  "logger (snd (Flush ext gv)) = logger gv"
  by (simp_all add: Flush_def Let_def)

lemma logThis_strategies [simp]:
  "encodingStrategy (snd (logThis ext m p v pr gv)) = encodingStrategy gv"
  "decodingStrategy (snd (logThis ext m p v pr gv)) = decodingStrategy gv"
  "logger (snd (logThis ext m p v pr gv)) = logger gv"
  by (simp_all add: logThis_def printColoredMessage_def Flush_def Let_def split: prod.splits)

lemma logWriteWrapper_strategies [simp]:
  "encodingStrategy (snd (logWriteWrapper ext m e pr gv)) = encodingStrategy gv"
  "decodingStrategy (snd (logWriteWrapper ext m e pr gv)) = decodingStrategy gv"
  by (simp_all add: logWriteWrapper_def Println_def case_prod_beta)

lemma logWriteWrapper_logger:
  "x \<in> set (logger gv) \<Longrightarrow> x \<in> set (logger (snd (logWriteWrapper ext m e pr gv)))"
  by (simp add: logWriteWrapper_def Println_def case_prod_beta)

lemma tickClock_strategies [simp]:
  "encodingStrategy (tickClock gv) = encodingStrategy gv"
  "decodingStrategy (tickClock gv) = decodingStrategy gv"
  by (simp_all add: tickClock_def Println_def Let_def)

lemma tickClock_logger:
  "x \<in> set (logger gv) \<Longrightarrow> x \<in> set (logger (tickClock gv))"
  by (simp add: tickClock_def Println_def Let_def)

lemma prepareLogFile_strategies [simp]:
  "encodingStrategy (prepareLogFile ext gv) = encodingStrategy gv"
  "decodingStrategy (prepareLogFile ext gv) = decodingStrategy gv"
  by (simp_all add: prepareLogFile_def Println_def Let_def case_prod_beta)

lemma Init_default_codec:
  "EncodingStrategy config = None \<or> DecodingStrategy config = None \<Longrightarrow>
   encodingStrategy (InitGoVector ext fs processid logfilename config) = DefaultEncoder (range_of ext) \<and>
   decodingStrategy (InitGoVector ext fs processid logfilename config) = DefaultDecoder"
  by (auto simp: InitGoVector_def Let_def setEncoderDecoder_def split: option.splits)

lemma P1_logger_facts:
  "\<not> mutex P1_logger" "priority P1_logger = INFO" "pid P1_logger = ''P1''"
  "currentVC P1_logger = [''P1'' \<mapsto> 1]"
  "encodingStrategy P1_logger = DefaultEncoder (list_range [''P1'', ''P2''])"
  "decodingStrategy P1_logger = DefaultDecoder"
  by (simp_all add: P1_logger_def Init_clock Init_default_codec GetDefaultConfig_def env_ok_def)

lemma P2_logger_facts:
  "\<not> mutex P2_logger" "priority P2_logger = INFO" "pid P2_logger = ''P2''"
  "currentVC P2_logger = [''P2'' \<mapsto> 1]"
  "encodingStrategy P2_logger = DefaultEncoder (list_range [''P1'', ''P2''])"
  "decodingStrategy P2_logger = DefaultDecoder"
  by (simp_all add: P2_logger_def Init_clock Init_default_codec GetDefaultConfig_def env_ok_def)

lemma Send_passes:
  assumes "\<not> mutex gv" and "priority gv \<le> p"
    and "encodingStrategy gv \<lparr>Pid = pid gv, VcMap = GetMap (Tick (pid gv) (currentVC gv)), Payload = buf\<rparr>
           = (bytes, err)"
  shows "\<exists>gv'. PrepareSendWithPriority ext m buf p gv = Some (bytes, gv') \<and>
           currentVC gv' = Tick (pid gv) (currentVC gv) \<and> \<not> mutex gv' \<and>
           (\<forall>er. err = Some er \<longrightarrow> Error er \<in> set (logger gv'))"
  using assms
  by (auto simp: PrepareSendWithPriority_def Lock_def Unlock_def Let_def Println_def
      split: option.splits)

lemma Receive_passes:
  assumes "\<not> mutex gv" and "priority gv \<le> p"
    and "decodingStrategy gv bytes \<lparr>Pid = [], VcMap = Map.empty, Payload = unpack\<rparr> = (err, e)"
  shows "\<exists>gv'. UnpackReceiveWithPriority ext m bytes unpack p gv = Some (Payload e, gv') \<and>
           currentVC gv' = Merge (VcMap e) (Tick (pid gv) (currentVC gv)) \<and> \<not> mutex gv' \<and>
           (\<forall>er. err = Some er \<longrightarrow> Error er \<in> set (logger gv'))"
  using assms
  by (auto simp: UnpackReceiveWithPriority_def mergeIncomingClock_def Lock_def Unlock_def Let_def
      Println_def tickClock_logger logWriteWrapper_logger split: option.splits)

subsection \<open>Scenario B: the send of P1\<close>

lemma scenario_range: "list_range [''P1'', ''P2''] [''P1'' \<mapsto> v] = [(''P1'', v)]"
  by (simp add: list_range_def List.map_filter_simps)

lemma scenario_encode:
  "DefaultEncoder (list_range [''P1'', ''P2''])
      \<lparr>Pid = ''P1'', VcMap = [''P1'' \<mapsto> 2], Payload = PString ''hello''\<rparr>
     = ([TStr ''P1'', TStr ''hello'', TMapLen 1, TStr ''P1'', TUint 2], None)"
  by (simp add: DefaultEncoder_def EncodeMsgpack_def EncodeString_def EncodeMapLen_def
      EncodeUint_def scenario_range)

lemma scenario_decode:
  "DefaultDecoder [TStr ''P1'', TStr ''hello'', TMapLen 1, TStr ''P1'', TUint 2]
      (empty_envelope (PString []))
     = (Some EOF, \<lparr>Pid = [], VcMap = [''P1'' \<mapsto> 2], Payload = PString ''hello''\<rparr>)"
  by (simp add: DefaultDecoder_def DecodeMsgpack_def DecodeMulti_def Let_def empty_envelope_def)

lemma scenario_send:
  "\<exists>gv'. PrepareSend env_ok ''go'' (PString ''hello'') P1_logger
      = Some ([TStr ''P1'', TStr ''hello'', TMapLen 1, TStr ''P1'', TUint 2], gv') \<and>
     currentVC gv' = [''P1'' \<mapsto> 2]"
proof -
  have e: "encodingStrategy P1_logger
      \<lparr>Pid = pid P1_logger, VcMap = GetMap (Tick (pid P1_logger) (currentVC P1_logger)),
       Payload = PString ''hello''\<rparr>
      = ([TStr ''P1'', TStr ''hello'', TMapLen 1, TStr ''P1'', TUint 2], None)"
    using scenario_encode by (simp add: P1_logger_facts GetMap_def Tick_def)
  have "\<not> mutex P1_logger" "priority P1_logger \<le> priority P1_logger"
    by (simp_all add: P1_logger_facts)
  from Send_passes [OF this e, of env_ok "''go''"]
  show ?thesis by (auto simp: PrepareSend_def P1_logger_facts Tick_def)
qed

text \<open>
  The envelope of a send that is not suppressed carries the sender's clock after this
  send's tick, which is also the logger's clock after the call.
\<close>

lemma Send_snapshot:
  assumes "\<not> mutex gv" and "priority gv \<le> p"
  shows "\<exists>gv'. PrepareSendWithPriority ext m buf p gv
                = Some (fst (encodingStrategy gv
                     \<lparr>Pid = pid gv, VcMap = Tick (pid gv) (currentVC gv), Payload = buf\<rparr>), gv') \<and>
              currentVC gv' = Tick (pid gv) (currentVC gv)"
proof -
  obtain bytes err where e: "encodingStrategy gv
      \<lparr>Pid = pid gv, VcMap = GetMap (Tick (pid gv) (currentVC gv)), Payload = buf\<rparr> = (bytes, err)"
    by (cases "encodingStrategy gv
      \<lparr>Pid = pid gv, VcMap = GetMap (Tick (pid gv) (currentVC gv)), Payload = buf\<rparr>")
  from Send_passes [OF assms e, of ext m] e show ?thesis
    by (auto simp: GetMap_def)
qed

text \<open>
  Claim C6 says that the bytes of \<^verbatim>\<open>Send("go", "hello")\<close> on the logger
  \<^verbatim>\<open>("P1", INFO)\<close> with clock \<open>{P1:1}\<close> decode to the envelope of sender "P1", clock
  \<open>{P1:2}\<close> and payload "hello". The send ticks first and returns the bytes of exactly
  this envelope, and the sender's clock is \<open>{P1:2}\<close> afterwards; decoding these bytes
  with \<^verbatim>\<open>DefaultDecoder\<close> gives the clock \<open>{P1:2}\<close> and the payload "hello", the empty
  string as sender and the error \<open>EOF\<close>.
\<close>

theorem Send_bytes_decode_without_sender:
  "currentVC P1_logger = [''P1'' \<mapsto> 1] \<and>
   value_after (PrepareSend env_ok ''go'' (PString ''hello'') P1_logger)
     = Some [TStr ''P1'', TStr ''hello'', TMapLen 1, TStr ''P1'', TUint 2] \<and>
   clock_after (PrepareSend env_ok ''go'' (PString ''hello'') P1_logger)
     = Some [''P1'' \<mapsto> 2] \<and>
   DefaultEncoder (list_range [''P1'', ''P2''])
      \<lparr>Pid = ''P1'', VcMap = [''P1'' \<mapsto> 2], Payload = PString ''hello''\<rparr>
     = ([TStr ''P1'', TStr ''hello'', TMapLen 1, TStr ''P1'', TUint 2], None) \<and>
   DefaultDecoder [TStr ''P1'', TStr ''hello'', TMapLen 1, TStr ''P1'', TUint 2]
      (empty_envelope (PString []))
     = (Some EOF, \<lparr>Pid = [], VcMap = [''P1'' \<mapsto> 2], Payload = PString ''hello''\<rparr>)"
proof -
  from scenario_send obtain gv' where
    "PrepareSend env_ok ''go'' (PString ''hello'') P1_logger
      = Some ([TStr ''P1'', TStr ''hello'', TMapLen 1, TStr ''P1'', TUint 2], gv')"
    and "currentVC gv' = [''P1'' \<mapsto> 2]" by blast
  then show ?thesis using scenario_encode scenario_decode
    by (simp add: P1_logger_facts value_after_def clock_after_def)
qed

subsection \<open>Scenario C: the receive of P2\<close>



text \<open>
  The same bytes received into a destination of another kind (an unsigned number): the
  decode stops at the payload with a type error, before the clock map is read, and the
  receiver ends with its own tick only.
\<close>

lemma scenario_receive_other_kind:
  "clock_after (UnpackReceive env_ok ''got'' [TStr ''P1'', TStr ''hello'', TMapLen 1, TStr ''P1'', TUint 2]
       (PUint 9) P2_logger) = Some [''P2'' \<mapsto> 2]"
proof -
  have d: "decodingStrategy P2_logger [TStr ''P1'', TStr ''hello'', TMapLen 1, TStr ''P1'', TUint 2]
        \<lparr>Pid = [], VcMap = Map.empty, Payload = PUint 9\<rparr>
      = (Some TypeMismatch, \<lparr>Pid = ''P1'', VcMap = Map.empty, Payload = PUint 9\<rparr>)"
    by (simp add: P2_logger_facts DefaultDecoder_def DecodeMsgpack_def Let_def)
  have "\<not> mutex P2_logger" "priority P2_logger \<le> priority P2_logger"
    by (simp_all add: P2_logger_facts)
  from Receive_passes [OF this d, of env_ok "''got''"]
  obtain gv' where r: "UnpackReceiveWithPriority env_ok ''got''
        [TStr ''P1'', TStr ''hello'', TMapLen 1, TStr ''P1'', TUint 2] (PUint 9) (priority P2_logger) P2_logger
        = Some (PUint 9, gv')"
    and c: "currentVC gv' = Merge Map.empty (Tick (pid P2_logger) (currentVC P2_logger))"
    by auto
  have "Merge Map.empty (Tick ''P2'' [''P2'' \<mapsto> 1]) = [''P2'' \<mapsto> (2 :: 64 word)]"
    by (auto simp: Merge_def Tick_def fun_eq_iff)
  with r c show ?thesis
    by (simp add: UnpackReceive_def clock_after_def P2_logger_facts)
qed




subsection \<open>Failed decoding and encoding\<close>

text \<open>
  Claim C1 says that a receive whose decode fails reports the failure and leaves the clock
  untouched. On the logger \<^verbatim>\<open>("P1", INFO)\<close> with clock \<open>{P1:1}\<close>, receiving the empty
  byte sequence makes the default decoder fail with \<open>EOF\<close>; the call returns normally
  and the clock is \<open>{P1:2}\<close>.
\<close>

theorem Receive_decode_failure_ticks_counterexample:
  "priority P1_logger \<le> INFO \<and>
   fst (decodingStrategy P1_logger [] (empty_envelope PNil)) = Some EOF \<and>
   value_after (UnpackReceiveWithPriority env_ok ''got'' [] PNil INFO P1_logger) = Some PNil \<and>
   currentVC P1_logger ''P1'' = Some 1 \<and>
   clock_after (UnpackReceiveWithPriority env_ok ''got'' [] PNil INFO P1_logger)
     = Some [''P1'' \<mapsto> 2] \<and>
   clock_after (UnpackReceiveWithPriority env_ok ''got'' [] PNil INFO P1_logger)
     \<noteq> Some (currentVC P1_logger)"
proof -
  have d: "decodingStrategy P1_logger [] \<lparr>Pid = [], VcMap = Map.empty, Payload = PNil\<rparr>
      = (Some EOF, \<lparr>Pid = [], VcMap = Map.empty, Payload = PNil\<rparr>)"
    by (simp add: P1_logger_facts DefaultDecoder_def DecodeMsgpack_def)
  have "\<not> mutex P1_logger" "priority P1_logger \<le> INFO" by (simp_all add: P1_logger_facts)
  from Receive_passes [OF this d, of env_ok "''got''"]
  obtain gv' where r: "UnpackReceiveWithPriority env_ok ''got'' [] PNil INFO P1_logger = Some (PNil, gv')"
    and c: "currentVC gv' = Merge Map.empty (Tick (pid P1_logger) (currentVC P1_logger))" by auto
  have m: "Merge Map.empty (Tick ''P1'' [''P1'' \<mapsto> 1]) = [''P1'' \<mapsto> (2 :: 64 word)]"
    by (auto simp: Merge_def Tick_def fun_eq_iff)
  have n: "[''P1'' \<mapsto> (2 :: 64 word)] \<noteq> [''P1'' \<mapsto> 1]"
    by (auto dest: map_upd_eqD1)
  show ?thesis using d r c m n
    by (simp add: P1_logger_facts clock_after_def value_after_def empty_envelope_def)
qed

text \<open>
  Claim C1 as the code has it. A \<^verbatim>\<open>UnpackReceiveWithPriority\<close> on an idle logger whose
  priority passes and whose decode fails returns normally: the error is only written to
  the internal diagnostic logger, and the tick and the merge are applied all the same.
  The clock afterwards is the clock before, ticked on the own component and merged with
  the clock map the failed decode left in the envelope.
\<close>

theorem Receive_decode_failure_still_merges:
  assumes "\<not> mutex gv" and "priority gv \<le> p"
    and "decodingStrategy gv bytes (empty_envelope unpack) = (Some er, e)"
  shows "\<exists>gv'. UnpackReceiveWithPriority ext msg bytes unpack p gv = Some (Payload e, gv') \<and>
           currentVC gv' = Merge (VcMap e) (Tick (pid gv) (currentVC gv)) \<and>
           Error er \<in> set (logger gv') \<and> \<not> mutex gv'"
proof -
  from assms(3) have d: "decodingStrategy gv bytes \<lparr>Pid = [], VcMap = Map.empty, Payload = unpack\<rparr>
      = (Some er, e)" by (simp add: empty_envelope_def)
  from Receive_passes [OF assms(1,2) d, of ext msg] show ?thesis by auto
qed

theorem Receive_decode_failure_still_merges_witness:
  "\<not> mutex P1_logger \<and> priority P1_logger \<le> INFO \<and>
   decodingStrategy P1_logger [] (empty_envelope PNil) = (Some EOF, empty_envelope PNil) \<and>
   (\<exists>gv'. UnpackReceiveWithPriority env_ok ''got'' [] PNil INFO P1_logger = Some (PNil, gv') \<and>
      currentVC gv' = [''P1'' \<mapsto> 2] \<and> Error EOF \<in> set (logger gv') \<and> \<not> mutex gv')"
proof -
  have d: "decodingStrategy P1_logger [] (empty_envelope PNil) = (Some EOF, empty_envelope PNil)"
    by (simp add: P1_logger_facts DefaultDecoder_def DecodeMsgpack_def)
  have h: "\<not> mutex P1_logger" "priority P1_logger \<le> INFO" by (simp_all add: P1_logger_facts)
  have m: "Merge Map.empty (Tick ''P1'' [''P1'' \<mapsto> 1]) = [''P1'' \<mapsto> (2 :: 64 word)]"
    by (auto simp: Merge_def Tick_def fun_eq_iff)
  from Receive_decode_failure_still_merges [OF h d, of env_ok "''got''"] m
  show ?thesis using d h by (simp add: P1_logger_facts empty_envelope_def)
qed

lemma scenario_encode_rejected:
  "DefaultEncoder (list_range [''P1'', ''P2''])
      \<lparr>Pid = ''P1'', VcMap = [''P1'' \<mapsto> 2], Payload = PFunc\<rparr>
     = ([TStr ''P1''], Some UnsupportedType)"
  by (simp add: DefaultEncoder_def EncodeMsgpack_def EncodeString_def)

text \<open>
  Claim C3 says that a send whose payload the encoding strategy rejects leaves the clock
  at its value before the call. On the logger \<^verbatim>\<open>("P1", INFO)\<close> with clock \<open>{P1:1}\<close>,
  sending a payload the default codec cannot encode leaves the clock at \<open>{P1:2}\<close>.
\<close>

theorem Send_encode_failure_ticks_counterexample:
  "priority P1_logger \<le> INFO \<and>
   snd (encodingStrategy P1_logger
          \<lparr>Pid = ''P1'', VcMap = [''P1'' \<mapsto> 2], Payload = PFunc\<rparr>) = Some UnsupportedType \<and>
   currentVC P1_logger ''P1'' = Some 1 \<and>
   clock_after (PrepareSendWithPriority env_ok ''go'' PFunc INFO P1_logger) = Some [''P1'' \<mapsto> 2] \<and>
   clock_after (PrepareSendWithPriority env_ok ''go'' PFunc INFO P1_logger)
     \<noteq> Some (currentVC P1_logger)"
proof -
  have e: "encodingStrategy P1_logger
      \<lparr>Pid = pid P1_logger, VcMap = GetMap (Tick (pid P1_logger) (currentVC P1_logger)),
       Payload = PFunc\<rparr> = ([TStr ''P1''], Some UnsupportedType)"
    using scenario_encode_rejected by (simp add: P1_logger_facts GetMap_def Tick_def)
  have "\<not> mutex P1_logger" "priority P1_logger \<le> INFO" by (simp_all add: P1_logger_facts)
  from Send_passes [OF this e, of env_ok "''go''"]
  obtain gv' where r: "PrepareSendWithPriority env_ok ''go'' PFunc INFO P1_logger = Some ([TStr ''P1''], gv')"
    and c: "currentVC gv' = Tick (pid P1_logger) (currentVC P1_logger)" by auto
  have n: "[''P1'' \<mapsto> (2 :: 64 word)] \<noteq> [''P1'' \<mapsto> 1]"
    by (auto dest: map_upd_eqD1)
  show ?thesis using r c n scenario_encode_rejected
    by (simp add: P1_logger_facts clock_after_def Tick_def)
qed

text \<open>
  Claim C3 as the code has it. A \<^verbatim>\<open>PrepareSendWithPriority\<close> on an idle logger whose
  priority passes and whose payload the encoding strategy rejects returns whatever bytes
  the strategy returned, with no failure indicator of its own: the error is only written
  to the internal diagnostic logger, and the clock is the clock before the call ticked
  once on the own component.
\<close>

theorem Send_encode_failure_still_ticks:
  assumes "\<not> mutex gv" and "priority gv \<le> p"
    and "encodingStrategy gv \<lparr>Pid = pid gv, VcMap = Tick (pid gv) (currentVC gv), Payload = buf\<rparr>
           = (bytes, Some er)"
  shows "\<exists>gv'. PrepareSendWithPriority ext msg buf p gv = Some (bytes, gv') \<and>
           currentVC gv' = Tick (pid gv) (currentVC gv) \<and>
           Error er \<in> set (logger gv') \<and> \<not> mutex gv'"
proof -
  from assms(3) have e: "encodingStrategy gv
      \<lparr>Pid = pid gv, VcMap = GetMap (Tick (pid gv) (currentVC gv)), Payload = buf\<rparr>
      = (bytes, Some er)" by (simp add: GetMap_def)
  from Send_passes [OF assms(1,2) e, of ext msg] show ?thesis by auto
qed

theorem Send_encode_failure_still_ticks_witness:
  "\<not> mutex P1_logger \<and> priority P1_logger \<le> INFO \<and>
   encodingStrategy P1_logger \<lparr>Pid = ''P1'', VcMap = [''P1'' \<mapsto> 2], Payload = PFunc\<rparr>
     = ([TStr ''P1''], Some UnsupportedType) \<and>
   (\<exists>gv'. PrepareSendWithPriority env_ok ''go'' PFunc INFO P1_logger = Some ([TStr ''P1''], gv') \<and>
      currentVC gv' = [''P1'' \<mapsto> 2] \<and>
      Error UnsupportedType \<in> set (logger gv') \<and> \<not> mutex gv')"
proof -
  have h: "\<not> mutex P1_logger" "priority P1_logger \<le> INFO" by (simp_all add: P1_logger_facts)
  have e: "encodingStrategy P1_logger
      \<lparr>Pid = pid P1_logger, VcMap = Tick (pid P1_logger) (currentVC P1_logger), Payload = PFunc\<rparr>
      = ([TStr ''P1''], Some UnsupportedType)"
    using scenario_encode_rejected by (simp add: P1_logger_facts Tick_def)
  from Send_encode_failure_still_ticks [OF h e, of env_ok "''go''"] e h
  show ?thesis by (simp add: P1_logger_facts Tick_def)
qed

subsection \<open>The round trip of the default codec\<close>

text \<open>
  Claim C4 says that decoding the bytes of an encoded envelope succeeds and gives the
  envelope back. For the envelope of sender "P1", clock \<open>{P1:2}\<close> and payload "hello",
  \<^verbatim>\<open>DefaultEncoder\<close> succeeds, and \<^verbatim>\<open>DefaultDecoder\<close> on its bytes returns the error
  \<open>EOF\<close> and leaves the destination with the same clock map and payload but with the
  empty string as sender.
\<close>

theorem DefaultDecoder_reports_EOF:
  "DefaultEncoder (list_range [''P1'', ''P2''])
      \<lparr>Pid = ''P1'', VcMap = [''P1'' \<mapsto> 2], Payload = PString ''hello''\<rparr>
     = ([TStr ''P1'', TStr ''hello'', TMapLen 1, TStr ''P1'', TUint 2], None) \<and>
   DefaultDecoder [TStr ''P1'', TStr ''hello'', TMapLen 1, TStr ''P1'', TUint 2]
      (empty_envelope (PString []))
     = (Some EOF, \<lparr>Pid = [], VcMap = [''P1'' \<mapsto> 2], Payload = PString ''hello''\<rparr>) \<and>
   Pid (snd (DefaultDecoder [TStr ''P1'', TStr ''hello'', TMapLen 1, TStr ''P1'', TUint 2]
      (empty_envelope (PString [])))) \<noteq> ''P1''"
  using scenario_encode scenario_decode by simp

subsection \<open>The pending-output buffer in unbuffered mode\<close>

lemma logThis_buffer_inv: "buffer_inv (snd (logThis ext m p v pr gv))"
  by (cases "buffered gv") (simp_all add: buffer_inv_def logThis_output)

lemma Println_buffer [simp]:
  "buffered (Println s gv) = buffered gv" "gv_output (Println s gv) = gv_output gv"
  by (simp_all add: Println_def)

lemma Println_buffer_inv [simp]: "buffer_inv (Println s gv) = buffer_inv gv"
  by (simp add: buffer_inv_def)

lemma Unlock_buffer_inv [simp]: "buffer_inv (Unlock gv) = buffer_inv gv"
  by (simp add: buffer_inv_def Unlock_def)

lemma logWriteWrapper_buffer_inv:
  "buffer_inv gv \<Longrightarrow> buffer_inv (snd (logWriteWrapper ext m e pr gv))"
  by (simp add: logWriteWrapper_def case_prod_beta logThis_buffer_inv)

lemma tickClock_buffer_inv [simp]: "buffer_inv (tickClock gv) = buffer_inv gv"
  by (simp add: buffer_inv_def)

lemma prepareLogFile_buffer_inv: "buffer_inv (prepareLogFile ext gv)"
  by (simp add: prepareLogFile_def Let_def case_prod_beta logThis_buffer_inv)

lemma Init_buffer_inv: "buffer_inv (InitGoVector ext fs processid logfilename config)"
  by (simp add: InitGoVector_def Let_def prepareLogFile_buffer_inv)

lemma mutex_update_buffer_inv [simp]: "buffer_inv (gv\<lparr>mutex := b\<rparr>) = buffer_inv gv"
  by (simp add: buffer_inv_def)

lemma clock_update_buffer_inv [simp]: "buffer_inv (gv\<lparr>currentVC := c\<rparr>) = buffer_inv gv"
  by (simp add: buffer_inv_def)

lemma disk_update_buffer_inv [simp]: "buffer_inv (gv\<lparr>disk := d\<rparr>) = buffer_inv gv"
  by (simp add: buffer_inv_def)

lemma LocalEvent_buffer_inv:
  "buffer_inv gv \<Longrightarrow> LogLocalEventWithPriority ext m p gv = Some (ok, gv') \<Longrightarrow> buffer_inv gv'"
  by (auto simp: LogLocalEventWithPriority_def Lock_def case_prod_beta
      logWriteWrapper_buffer_inv split: if_splits)

lemma Send_buffer_inv:
  "buffer_inv gv \<Longrightarrow> PrepareSendWithPriority ext m buf p gv = Some (bytes, gv') \<Longrightarrow> buffer_inv gv'"
  by (auto simp: PrepareSendWithPriority_def Lock_def Let_def case_prod_beta
      logWriteWrapper_buffer_inv split: if_splits option.splits)

lemma Receive_buffer_inv:
  "buffer_inv gv \<Longrightarrow> UnpackReceiveWithPriority ext m bytes unpack p gv = Some (v, gv')
     \<Longrightarrow> buffer_inv gv'"
  by (auto simp: UnpackReceiveWithPriority_def mergeIncomingClock_def Lock_def Let_def case_prod_beta
      logWriteWrapper_buffer_inv
      split: if_splits option.splits)

lemma reachable_buffer_inv: "reachable gv \<Longrightarrow> buffer_inv gv"
proof (induction rule: reachable.induct)
  case (r_init ext fs processid logfilename config)
  show ?case by (rule Init_buffer_inv)
next
  case (r_file gv d)
  then show ?case by simp
next
  case (r_enable gv)
  show ?case by (simp add: EnableBufferedWrites_def buffer_inv_def)
next
  case (r_disable gv ext)
  show ?case by (simp add: DisableBufferedWrites_def buffer_inv_def Let_def)
next
  case (r_flush gv ext)
  show ?case by (simp add: buffer_inv_def)
next
  case (r_local gv ext m p ok gv')
  then show ?case by (blast intro: LocalEvent_buffer_inv)
next
  case (r_send gv ext m buf p bytes gv')
  then show ?case by (blast intro: Send_buffer_inv)
next
  case (r_receive gv ext m bytes unpack p v gv')
  then show ?case by (blast intro: Receive_buffer_inv)
qed

text \<open>
  Claim C9. In every state a program can reach, when a \<^verbatim>\<open>LogLocalEventWithPriority\<close>,
  \<^verbatim>\<open>PrepareSendWithPriority\<close> or \<^verbatim>\<open>UnpackReceiveWithPriority\<close> call returns and the
  logger is in unbuffered mode, the pending-output buffer is empty, whether or not the
  write to the log file succeeded.
\<close>

theorem unbuffered_buffer_empty:
  assumes "reachable gv"
    and "LogLocalEventWithPriority ext m p gv = Some (ok, gv') \<or>
         PrepareSendWithPriority ext m buf p gv = Some (bytes, gv') \<or>
         UnpackReceiveWithPriority ext m received unpack p gv = Some (v, gv')"
    and "\<not> buffered gv'"
  shows "gv_output gv' = []"
proof -
  from assms(1,2) have "reachable gv'"
    by (blast intro: r_local r_send r_receive)
  then have "buffer_inv gv'" by (rule reachable_buffer_inv)
  with assms(3) show ?thesis by (simp add: buffer_inv_def)
qed

lemma P1_logger_storage:
  "buffered P1_logger = False" "logging P1_logger = True" "disk P1_logger \<noteq> None"
  "printonscreen P1_logger = False" "usetimestamps P1_logger = False"
  by (simp_all add: P1_logger_def InitGoVector_def prepareLogFile_def logThis_def Flush_def
      Println_def setEncoderDecoder_def GetDefaultConfig_def env_ok_def Let_def)

lemma P1_write_fails:
  "\<exists>gv'. LogLocalEventWithPriority env_write_fails ''e'' INFO P1_logger = Some (False, gv') \<and>
     \<not> buffered gv'"
  using P1_logger_storage
  by (auto simp: LogLocalEventWithPriority_def Lock_def Unlock_def P1_logger_facts
      logWriteWrapper_def logThis_def Flush_def Println_def tickClock_def Let_def
      env_write_fails_def env_ok_def FindTicks_def)

theorem unbuffered_buffer_empty_witness:
  "reachable P1_logger \<and>
   (\<exists>gv'. LogLocalEventWithPriority env_write_fails ''e'' INFO P1_logger = Some (False, gv') \<and>
      \<not> buffered gv' \<and> gv_output gv' = [])"
proof -
  have r: "reachable P1_logger" unfolding P1_logger_def by (rule r_init)
  from P1_write_fails obtain gv' where
    e: "LogLocalEventWithPriority env_write_fails ''e'' INFO P1_logger = Some (False, gv')"
    and b: "\<not> buffered gv'" by blast
  from e have "LogLocalEventWithPriority env_write_fails ''e'' INFO P1_logger = Some (False, gv') \<or>
         PrepareSendWithPriority env_write_fails ''e'' PNil INFO P1_logger = Some ([], gv') \<or>
         UnpackReceiveWithPriority env_write_fails ''e'' [] PNil INFO P1_logger = Some (PNil, gv')"
    by simp
  from unbuffered_buffer_empty [OF r this b] e b r show ?thesis by blast
qed

end
